theory Spec2Isabelle
  imports Main "HOL-Library.Word"
begin

section \<open>Data model of src/index.ts\<close>

text \<open>
  The canister keeps two keyed stores, \<open>eventTicketStorage\<close> and \<open>ticketSoldStorage\<close>, and
  exposes operations that read and write them. A JavaScript \<open>number\<close> is modelled as an
  integer, a \<open>nat64\<close> as a 64-bit word, a string as \<open>string\<close>. The one arithmetic
  operation of the program, \<open>totalTicketSold + 1\<close>, is the float64 addition \<open>js_add1\<close>.

  The type alias \<open>EventTicket\<close> of the source declares \<open>id\<close>, \<open>title\<close>, \<open>description\<close>,
  \<open>price\<close>, \<open>totalTicketSold\<close>, \<open>createdAt\<close> and \<open>updatedAt\<close>. The functions
  \<open>checkTicketAvailability\<close> and \<open>reserveTicket\<close> also read \<open>ticket.capacity\<close> and read and
  write \<open>ticket.reservedBy\<close>; a property that an object does not have reads as
  \<open>undefined\<close>. Both are therefore optional fields of the record, \<open>None\<close> standing for
  \<open>undefined\<close>. The field \<open>id\<close> of either record is named \<open>et_id\<close> and \<open>ts_id\<close>.
\<close>

type_synonym number = int
type_synonym nat64 = "64 word"

record EventTicket =
  et_id :: string
  title :: string
  description :: string
  price :: number
  totalTicketSold :: number
  createdAt :: nat64
  updatedAt :: "nat64 option"
  capacity :: "number option"
  reservedBy :: "string option"

record TicketSold =
  ts_id :: string
  eventTicketId :: string
  username :: string

record EventTicketPayload =
  payload_title :: string
  payload_description :: string
  payload_price :: number

text \<open>
  Every \<open>Result.Err\<close> of the source carries a message string. The error value keeps the
  message and tags the place it comes from with its kind: a failed lookup, or the
  reservation guard of \<open>reserveTicket\<close>.
\<close>

datatype error = NotFound string | ReservationConflict string

type_synonym 'a Result = "error + 'a"

text \<open>
  Modelled from the spec: \<open>StableBTreeMap\<close> is a class of the azle library, which is not
  part of the source. The specification describes it as a keyed store with \<open>get\<close>,
  \<open>insert\<close> and \<open>remove\<close> by key, and the two stores as independent collections; a
  store is therefore a map from keys to entities, \<open>insert\<close> writes the entity it is given
  with all its properties and always succeeds. The source constructs both stores with the
  same memory identifier 0, a key bound of 44 bytes and a value bound of 1024 bytes; what
  the library does with a shared identifier or with an entity beyond the bounds is not
  part of the model.
\<close>

record state =
  eventTicketStorage :: "string \<rightharpoonup> EventTicket"
  ticketSoldStorage :: "string \<rightharpoonup> TicketSold"

definition init :: state where
  "init = \<lparr>eventTicketStorage = Map.empty, ticketSoldStorage = Map.empty\<rparr>"

subsection \<open>Method calls on a result object\<close>

text \<open>
  \<open>Result.Ok\<close> and \<open>Result.Err\<close> come from the azle library (line 8 of the source) and
  build a plain object with the one property \<open>Ok\<close> or \<open>Err\<close>; \<open>getEventTicketById\<close> and
  \<open>getTicketSoldById\<close> return such an object. The source defines no \<open>isErr\<close> and no
  \<open>unwrap\<close> and imports none, so on these objects either property is \<open>undefined\<close>, and
  the calls \<open>x.isErr()\<close> and \<open>x.unwrap()\<close> throw \<open>TypeError\<close>. A call of an exported
  function therefore ends in one of two ways: it throws, or it returns a result object.
\<close>

datatype exception = TypeError

datatype 'a outcome = Threw exception | Returned "'a Result"

definition isErr :: "'a Result \<Rightarrow> exception + bool" where
  "isErr r = Inl TypeError"

definition unwrap :: "'a Result \<Rightarrow> exception + 'a" where
  "unwrap r = Inl TypeError"

subsection \<open>JavaScript operators\<close>

text \<open>\<open>a < b\<close> where \<open>b\<close> may be \<open>undefined\<close>: a comparison with \<open>undefined\<close> is false.\<close>

definition js_less :: "number \<Rightarrow> number option \<Rightarrow> bool" where
  "js_less a b = (case b of None \<Rightarrow> False | Some c \<Rightarrow> a < c)"

text \<open>Truthiness of a string property: \<open>undefined\<close> and the empty string are falsy.\<close>

definition truthy :: "string option \<Rightarrow> bool" where
  "truthy v = (case v of None \<Rightarrow> False | Some str \<Rightarrow> str \<noteq> [])"

text \<open>
  \<open>n + 1\<close> for an integer \<open>n\<close> that a float64 holds. The sum is exact while it is at most
  \<open>2^53\<close> in magnitude. Between \<open>2^53\<close> and \<open>2^54\<close> the representable integers are the
  even ones and the sum lies halfway between two of them: it rounds to the one with the
  even significand. Beyond, \<open>n\<close> itself is the nearest representable value.
\<close>

definition js_add1 :: "number \<Rightarrow> number" where
  "js_add1 n =
     (if - 9007199254740992 \<le> n \<and> n < 9007199254740992 then n + 1
      else if - 18014398509481984 < n \<and> n < 18014398509481984 \<and> n mod 4 = 2 then n + 2
      else n)"

section \<open>Operations\<close>

text \<open>
  The values of \<open>uuidv4()\<close> and \<open>ic.time()\<close> come from the environment: an operation that
  calls them takes the value returned as an argument (\<open>uuid\<close>, \<open>now\<close>). An update returns
  its result and the new state; a query returns its result. The six functions that call
  \<open>isErr\<close> have an outcome: what they threw, or the result they returned.
\<close>

definition createEventTicket ::
  "string \<Rightarrow> nat64 \<Rightarrow> EventTicketPayload \<Rightarrow> state \<Rightarrow> EventTicket Result \<times> state" where
  "createEventTicket uuid now payload s =
    (let newTicket = \<lparr>et_id = uuid,
                       title = payload_title payload,
                       description = payload_description payload,
                       price = payload_price payload,
                       totalTicketSold = 0,
                       createdAt = now,
                       updatedAt = None,
                       capacity = None,
                       reservedBy = None\<rparr>
     in (Inr newTicket,
         s\<lparr>eventTicketStorage := (eventTicketStorage s)(et_id newTicket \<mapsto> newTicket)\<rparr>))"

definition getEventTicketById :: "state \<Rightarrow> string \<Rightarrow> EventTicket Result" where
  "getEventTicketById s id' =
    (case eventTicketStorage s id' of
       Some ticket \<Rightarrow> Inr ticket
     | None \<Rightarrow> Inl (NotFound (''event ticket with id='' @ id' @ '' not found'')))"

definition deleteEventTicket :: "string \<Rightarrow> state \<Rightarrow> EventTicket Result \<times> state" where
  "deleteEventTicket id' s =
    (case eventTicketStorage s id' of
       Some ticket \<Rightarrow> (Inr ticket, s\<lparr>eventTicketStorage := (eventTicketStorage s)(id' := None)\<rparr>)
     | None \<Rightarrow>
         (Inl (NotFound (''couldn't delete ticket with id='' @ id' @ ''. Profile not found.'')), s))"

definition getTicketSoldById :: "state \<Rightarrow> string \<Rightarrow> TicketSold Result" where
  "getTicketSoldById s id' =
    (case ticketSoldStorage s id' of
       Some ticket \<Rightarrow> Inr ticket
     | None \<Rightarrow> Inl (NotFound (''ticket sold with id='' @ id' @ '' not found'')))"

definition buyTicket ::
  "string \<Rightarrow> nat64 \<Rightarrow> string \<Rightarrow> string \<Rightarrow> state \<Rightarrow> TicketSold outcome \<times> state" where
  "buyTicket uuid now id' user s =
    (let eventTicket = getEventTicketById s id' in
     case isErr eventTicket of
       Inl exn \<Rightarrow> (Threw exn, s)
     | Inr failed \<Rightarrow>
        if failed
        then (Returned (Inl (NotFound (''Event ticket with id='' @ id' @ '' not found.''))), s)
        else
          (case unwrap eventTicket of
             Inl exn \<Rightarrow> (Threw exn, s)
           | Inr ticket \<Rightarrow>
              (let newTicket = \<lparr>ts_id = uuid, eventTicketId = et_id ticket, username = user\<rparr>;
                   s1 = s\<lparr>ticketSoldStorage :=
                          (ticketSoldStorage s)(ts_id newTicket \<mapsto> newTicket)\<rparr>;
                   updateEventTicket =
                     ticket\<lparr>totalTicketSold := js_add1 (totalTicketSold ticket),
                            updatedAt := Some now\<rparr>;
                   s2 = s1\<lparr>eventTicketStorage :=
                          (eventTicketStorage s1)(et_id updateEventTicket \<mapsto> updateEventTicket)\<rparr>
               in (Returned (Inr newTicket), s2))))"

definition resellTicket :: "string \<Rightarrow> string \<Rightarrow> state \<Rightarrow> TicketSold outcome \<times> state" where
  "resellTicket id' user s =
    (let ticket = getTicketSoldById s id' in
     case isErr ticket of
       Inl exn \<Rightarrow> (Threw exn, s)
     | Inr failed \<Rightarrow>
        if failed
        then (Returned (Inl (NotFound (''ticket sold with id='' @ id' @ '' not found.''))), s)
        else
          (case unwrap ticket of
             Inl exn \<Rightarrow> (Threw exn, s)
           | Inr sold \<Rightarrow>
              (let newTicket = sold\<lparr>username := user\<rparr>
               in (Returned (Inr newTicket),
                   s\<lparr>ticketSoldStorage :=
                        (ticketSoldStorage s)(ts_id newTicket \<mapsto> newTicket)\<rparr>))))"

definition checkTicketAvailability :: "state \<Rightarrow> string \<Rightarrow> bool outcome" where
  "checkTicketAvailability s id' =
    (let eventTicket = getEventTicketById s id' in
     case isErr eventTicket of
       Inl exn \<Rightarrow> Threw exn
     | Inr failed \<Rightarrow>
        if failed
        then Returned (Inl (NotFound (''Event ticket with id='' @ id' @ '' not found.'')))
        else
          (case unwrap eventTicket of
             Inl exn \<Rightarrow> Threw exn
           | Inr ticket \<Rightarrow>
              (let availableTickets = js_less (totalTicketSold ticket) (capacity ticket)
               in Returned (Inr availableTickets))))"

definition reserveTicket :: "string \<Rightarrow> string \<Rightarrow> state \<Rightarrow> string outcome \<times> state" where
  "reserveTicket id' user s =
    (let eventTicket = getEventTicketById s id' in
     case isErr eventTicket of
       Inl exn \<Rightarrow> (Threw exn, s)
     | Inr failed \<Rightarrow>
        if failed
        then (Returned (Inl (NotFound (''Event ticket with id='' @ id' @ '' not found.''))), s)
        else
          (case unwrap eventTicket of
             Inl exn \<Rightarrow> (Threw exn, s)
           | Inr ticket \<Rightarrow>
              if truthy (reservedBy ticket) \<and> reservedBy ticket \<noteq> Some user
              then (Returned
                      (Inl (ReservationConflict ''Ticket is already reserved by another user.'')),
                    s)
              else
                (let updatedTicket = ticket\<lparr>reservedBy := Some user\<rparr>
                 in (Returned (Inr (et_id updatedTicket)),
                     s\<lparr>eventTicketStorage :=
                          (eventTicketStorage s)(et_id updatedTicket \<mapsto> updatedTicket)\<rparr>))))"

definition transferTicket :: "string \<Rightarrow> string \<Rightarrow> state \<Rightarrow> string outcome \<times> state" where
  "transferTicket id' newOwner s =
    (let ticket = getTicketSoldById s id' in
     case isErr ticket of
       Inl exn \<Rightarrow> (Threw exn, s)
     | Inr failed \<Rightarrow>
        if failed
        then (Returned (Inl (NotFound (''Ticket sold with id='' @ id' @ '' not found.''))), s)
        else
          (case unwrap ticket of
             Inl exn \<Rightarrow> (Threw exn, s)
           | Inr sold \<Rightarrow>
              (let updatedTicket = sold\<lparr>username := newOwner\<rparr>
               in (Returned (Inr (ts_id updatedTicket)),
                   s\<lparr>ticketSoldStorage :=
                        (ticketSoldStorage s)(ts_id updatedTicket \<mapsto> updatedTicket)\<rparr>))))"

definition requestTicketRefund :: "string \<Rightarrow> state \<Rightarrow> string outcome \<times> state" where
  "requestTicketRefund id' s =
    (let ticket = getTicketSoldById s id' in
     case isErr ticket of
       Inl exn \<Rightarrow> (Threw exn, s)
     | Inr failed \<Rightarrow>
        if failed
        then (Returned (Inl (NotFound (''Ticket sold with id='' @ id' @ '' not found.''))), s)
        else (Returned (Inr id'),
              s\<lparr>ticketSoldStorage := (ticketSoldStorage s)(id' := None)\<rparr>))"

section \<open>Replies as the caller sees them\<close>

text \<open>
  \<open>resellTicket\<close> is declared to answer with a \<open>TicketSold\<close> record and \<open>transferTicket\<close>
  with a string. To compare what the two operations do, both answers are injected into one
  type of replies.
\<close>

datatype reply = RecordReply TicketSold | TextReply string

definition resell_reply :: "string \<Rightarrow> string \<Rightarrow> state \<Rightarrow> reply outcome \<times> state" where
  "resell_reply id' user s = apfst (map_outcome RecordReply) (resellTicket id' user s)"

definition transfer_reply :: "string \<Rightarrow> string \<Rightarrow> state \<Rightarrow> reply outcome \<times> state" where
  "transfer_reply id' user s = apfst (map_outcome TextReply) (transferTicket id' user s)"

section \<open>The sold counter and the ledger\<close>



text \<open>
  A stored event ticket is as \<open>createEventTicket\<close> made it: stored under its identifier,
  with nothing sold, never updated, without capacity and without reservation.
\<close>

definition untouched :: "state \<Rightarrow> bool" where
  "untouched s \<longleftrightarrow>
     (\<forall>k t. eventTicketStorage s k = Some t \<longrightarrow>
        et_id t = k \<and> totalTicketSold t = 0 \<and> updatedAt t = None \<and>
        capacity t = None \<and> reservedBy t = None)"

text \<open>
  The update calls of the canister, each with the values the environment gave it. A call
  that throws leaves the state it started from.
\<close>

datatype call =
    CreateEventTicket string nat64 EventTicketPayload
  | DeleteEventTicket string
  | BuyTicket string nat64 string string
  | ResellTicket string string
  | ReserveTicket string string
  | TransferTicket string string
  | RequestTicketRefund string

fun perform :: "call \<Rightarrow> state \<Rightarrow> state" where
  "perform (CreateEventTicket uuid now payload) s = snd (createEventTicket uuid now payload s)"
| "perform (DeleteEventTicket id') s = snd (deleteEventTicket id' s)"
| "perform (BuyTicket uuid now id' user) s = snd (buyTicket uuid now id' user s)"
| "perform (ResellTicket id' user) s = snd (resellTicket id' user s)"
| "perform (ReserveTicket id' user) s = snd (reserveTicket id' user s)"
| "perform (TransferTicket id' user) s = snd (transferTicket id' user s)"
| "perform (RequestTicketRefund id') s = snd (requestTicketRefund id' s)"

text \<open>The states the canister can be in: from the empty stores, by any calls.\<close>

inductive reachable :: "state \<Rightarrow> bool" where
  reachable_init: "reachable init"
| reachable_step: "reachable s \<Longrightarrow> reachable (perform c s)"

section \<open>Example states\<close>




section \<open>What every reachable state looks like\<close>

text \<open>Each of the six functions throws at its first method call and writes nothing.\<close>

lemma perform_throwing:
  "snd (buyTicket uuid now i u s) = s"
  "snd (resellTicket i u s) = s"
  "snd (reserveTicket i u s) = s"
  "snd (transferTicket i u s) = s"
  "snd (requestTicketRefund i s) = s"
  by (simp_all add: buyTicket_def resellTicket_def reserveTicket_def transferTicket_def
      requestTicketRefund_def isErr_def Let_def)




lemma untouched_perform: "untouched s \<Longrightarrow> untouched (perform c s)"
  by (cases c)
     (auto simp: untouched_def perform_throwing createEventTicket_def deleteEventTicket_def
        Let_def split: option.splits if_splits)

lemma reachable_untouched: "reachable s \<Longrightarrow> untouched s"
proof (induction rule: reachable.induct)
  case reachable_init
  show ?case by (simp add: untouched_def init_def)
next
  case (reachable_step s c)
  then show ?case by (simp add: untouched_perform)
qed

text \<open>So no reachable state holds a sold-out event ticket, nor a reserved one.\<close>

lemma reachable_never_sold_out:
  assumes "reachable s" "eventTicketStorage s k = Some t"
  shows "capacity t \<noteq> Some (totalTicketSold t)"
  using reachable_untouched [OF assms(1)] assms(2) by (auto simp: untouched_def)

lemma reachable_never_reserved:
  assumes "reachable s" "eventTicketStorage s k = Some t"
  shows "reservedBy t = None"
  using reachable_untouched [OF assms(1)] assms(2) by (auto simp: untouched_def)




section \<open>Purchase\<close>


section \<open>Availability\<close>

text \<open>
  C2: \<open>checkTicketAvailability\<close> is to answer whether \<open>totalTicketSold\<close> is below the
  capacity, and to fail with the not-found error for an unknown identifier. What the code
  does on every state and identifier, stored or not: it throws at \<open>eventTicket.isErr()\<close>.
\<close>

theorem checkTicketAvailability_throws:
  "checkTicketAvailability s i = Threw TypeError"
  by (simp add: checkTicketAvailability_def isErr_def Let_def)

section \<open>The invariant of the counters\<close>



section \<open>Refund\<close>

text \<open>
  C4: \<open>requestTicketRefund\<close> is to fail with the not-found error for an unknown identifier
  and to remove the record otherwise, leaving the event tickets alone. What the code does
  on every state and identifier: it throws at \<open>ticket.isErr()\<close> and leaves both stores
  as they were.
\<close>

theorem requestTicketRefund_throws:
  "requestTicketRefund i s = (Threw TypeError, s)"
  by (simp add: requestTicketRefund_def isErr_def Let_def)

section \<open>Reservation\<close>

text \<open>
  C5: after a successful reservation by \<open>p1\<close>, a reservation by another principal \<open>p2\<close> is
  to fail with the reservation conflict and a repeated one by \<open>p1\<close> to succeed. What the
  code does: the first reservation throws at \<open>eventTicket.isErr()\<close> and writes nothing,
  and so does the one that follows, by whichever principal.
\<close>

theorem reserveTicket_throws_twice:
  "reserveTicket i p1 s = (Threw TypeError, s)
   \<and> reserveTicket i p2 (snd (reserveTicket i p1 s)) = (Threw TypeError, s)"
  by (simp add: reserveTicket_def isErr_def Let_def)

section \<open>Resale and transfer\<close>

text \<open>
  C6: \<open>resellTicket\<close> and \<open>transferTicket\<close> are to fail with the not-found error for an
  unknown identifier and to set the holder of the record otherwise. What the code does on
  every state, identifier and holder: both throw at \<open>ticket.isErr()\<close> and leave both
  stores as they were.
\<close>

theorem reassign_owner_throws:
  "resellTicket i u s = (Threw TypeError, s) \<and> transferTicket i u s = (Threw TypeError, s)"
  by (simp add: resellTicket_def transferTicket_def isErr_def Let_def)

text \<open>
  C7: \<open>transferTicket\<close> and \<open>resellTicket\<close> are to behave alike, succeeding with the updated
  record and failing only with the not-found error. What the code does: the two replies
  are equal on every input, and the reply is the thrown \<open>TypeError\<close> with the state
  unchanged, never a record and never the not-found error.
\<close>

theorem transfer_reply_same_throw:
  "transfer_reply i u s = resell_reply i u s \<and> resell_reply i u s = (Threw TypeError, s)"
  by (simp add: transfer_reply_def resell_reply_def resellTicket_def transferTicket_def
      isErr_def Let_def)

section \<open>Creation\<close>

text \<open>
  C8: \<open>createEventTicket\<close> always succeeds. The entity it returns carries the generated
  identifier, the title, description and price of the payload, \<open>totalTicketSold = 0\<close>,
  \<open>createdAt\<close> equal to the current time, no \<open>updatedAt\<close> and no \<open>reservedBy\<close>; it is
  stored under its identifier and the ledger is untouched.
\<close>

theorem createEventTicket_succeeds:
  "\<exists>t. fst (createEventTicket uuid now payload s) = Inr t
      \<and> et_id t = uuid
      \<and> title t = payload_title payload
      \<and> description t = payload_description payload
      \<and> price t = payload_price payload
      \<and> totalTicketSold t = 0
      \<and> createdAt t = now
      \<and> updatedAt t = None
      \<and> reservedBy t = None
      \<and> eventTicketStorage (snd (createEventTicket uuid now payload s))
          = (eventTicketStorage s)(uuid \<mapsto> t)
      \<and> ticketSoldStorage (snd (createEventTicket uuid now payload s)) = ticketSoldStorage s"
  by (simp add: createEventTicket_def Let_def)

text \<open>
  C9: for every payload, \<open>createEventTicket\<close> followed by \<open>getEventTicketById\<close> on the
  identifier of the returned entity succeeds with that same entity.
\<close>

theorem create_then_get:
  "\<exists>t. fst (createEventTicket uuid now payload s) = Inr t
      \<and> getEventTicketById (snd (createEventTicket uuid now payload s)) (et_id t) = Inr t"
  by (simp add: createEventTicket_def getEventTicketById_def Let_def)

end
